theory Spec2Isabelle
  imports Complex_Main "HOL-Library.Multiset"
begin

section \<open>Beta-Bernoulli conjugate updating: the class BaysBernoulli\<close>

text \<open>
  A shallow embedding of \<^verbatim>\<open>src/PyBayesAB/conjugated_priors/bernoulli.py\<close>.

  Numbers. The ledgers hold Python numbers: the integer counts of the experiments and
  the pseudo-counts of the prior, which are floats for three of the four priors
  (\<^verbatim>\<open>1/2\<close>, \<^verbatim>\<open>1/3\<close>, \<^verbatim>\<open>10**-3\<close>). Both are embedded in \<open>real\<close>: Python's
  integers are unbounded and so exact, and the floats are read as the rationals their
  literals denote, with exact addition and division. Rounding is outside the model.

  Exceptions. A method that raises returns \<open>Inl\<close>. The methods that mutate the
  object return, next to the exception, the object as it is when the exception leaves
  the method, so that "raises and appends nothing" is a statement about a value.
\<close>

datatype py_error =
    SyntaxError
  | ValueError
  | AttributeError
  | IndexError
  | UnboundLocalError
  | ZeroDivisionError

subsection \<open>The table handed to \<^verbatim>\<open>add_data\<close>\<close>

text \<open>
  A pandas DataFrame is kept as its rows in index order. Each row is split at the group
  column: the value of that column, and the values of the remaining columns in column
  order (what \<^verbatim>\<open>drop(columns=group_col_name).values.tolist()\<close> yields for the row).
\<close>

type_synonym row = "string \<times> real list"
type_synonym dataframe = "row list"

subsection \<open>The object\<close>

record bays_bernoulli =
  prior :: "real list"
  dataA :: "real list list"
  dataB :: "real list list"
  data :: "dataframe option"

type_synonym 'a raises = "py_error + 'a"
type_synonym mutation = "(py_error \<times> bays_bernoulli) + bays_bernoulli"

text \<open>
  \<^verbatim>\<open>__init__(self, prior_type)\<close>: the chain of comparisons on the name, in the
  source's order, then the two ledgers, each an empty list to which the prior is
  appended, and the table slot set to \<^verbatim>\<open>None\<close>.
\<close>

definition init :: "string \<Rightarrow> bays_bernoulli raises" where
  "init prior_type =
     (case (if prior_type = ''Bayes-Laplace'' then Inr [1, 1]
            else if prior_type = ''Jeffreys'' then Inr [1 / 2, 1 / 2]
            else if prior_type = ''Neutral'' then Inr [1 / 3, 1 / 3]
            else if prior_type = ''Haldane'' then Inr [1 / 10 ^ 3, 1 / 10 ^ 3]
            else Inl SyntaxError)
      of Inl e \<Rightarrow> Inl e
       | Inr p \<Rightarrow> Inr \<lparr>prior = p, dataA = [] @ [p], dataB = [] @ [p], data = None\<rparr>)"

subsection \<open>Adding data\<close>

text \<open>
  \<^verbatim>\<open>add_data(self, df)\<close>: the test on the group column comes first and raises
  \<^verbatim>\<open>ValueError\<close> before anything is assigned; then the table is stored and both
  ledgers are extended with the rows of their group.
\<close>

definition add_data :: "bays_bernoulli \<Rightarrow> dataframe \<Rightarrow> mutation" where
  "add_data self df =
     (if \<not> list_all (\<lambda>x. x \<in> set (map fst df)) [''A'', ''B'']
      then Inl (ValueError, self)
      else Inr (self\<lparr>data := Some df,
                     dataA := dataA self @ map snd (filter (\<lambda>r. fst r = ''A'') df),
                     dataB := dataB self @ map snd (filter (\<lambda>r. fst r = ''B'') df)\<rparr>))"

text \<open>
  \<^verbatim>\<open>add_experiment(self, hits, fails, group)\<close>. The branch for group A calls
  \<^verbatim>\<open>self.data.append\<close>, on the table slot and not on \<^verbatim>\<open>self.dataA\<close>. While the slot
  is \<^verbatim>\<open>None\<close> that is an \<^verbatim>\<open>AttributeError\<close>. Once a table is stored the outcome
  depends on the pandas release: before 2.0 \<^verbatim>\<open>DataFrame.append\<close> builds and returns a
  new frame, which is dropped here, and from 2.0 on the method is gone. The release
  is the parameter \<open>legacy\<close>. No branch looks at the sign of the counts.
\<close>

definition add_experiment ::
  "bool \<Rightarrow> bays_bernoulli \<Rightarrow> real \<Rightarrow> real \<Rightarrow> string \<Rightarrow> mutation" where
  "add_experiment legacy self hits fails grp =
     (if grp = ''A'' then
        (case data self of
           None \<Rightarrow> Inl (AttributeError, self)
         | Some df \<Rightarrow> if legacy then Inr self else Inl (AttributeError, self))
      else if grp = ''B'' then Inr (self\<lparr>dataB := dataB self @ [[hits, fails]]\<rparr>)
      else Inr self)"

text \<open>
  \<^verbatim>\<open>bernoulli.rvs(p, size=n)\<close> of scipy. The library checks the shape parameter
  (\<^verbatim>\<open>0 <= p <= 1\<close>) and numpy refuses a negative size; both raise \<^verbatim>\<open>ValueError\<close>.
  The pseudo-random source is the parameter \<open>u\<close>, the uniform variates behind the
  draws: draw \<open>i\<close> is a success when \<open>u i < p\<close>.
\<close>

definition bernoulli_rvs :: "(nat \<Rightarrow> real) \<Rightarrow> real \<Rightarrow> int \<Rightarrow> bool list raises" where
  "bernoulli_rvs u p n =
     (if \<not> (0 \<le> p \<and> p \<le> 1) then Inl ValueError
      else if n < 0 then Inl ValueError
      else Inr (map (\<lambda>i. u i < p) [0 ..< nat n]))"

definition count_nonzero :: "bool list \<Rightarrow> int" where
  "count_nonzero xs = int (length (filter (\<lambda>x. x) xs))"

text \<open>
  \<^verbatim>\<open>add_rand_experiment(self, n, p, group)\<close>: the draw comes before the test on the
  group, so a refused \<open>p\<close> or \<open>n\<close> raises for every group.
\<close>

definition add_rand_experiment ::
  "(nat \<Rightarrow> real) \<Rightarrow> bays_bernoulli \<Rightarrow> int \<Rightarrow> real \<Rightarrow> string \<Rightarrow> mutation" where
  "add_rand_experiment u self n p grp =
     (case bernoulli_rvs u p n of
        Inl e \<Rightarrow> Inl (e, self)
      | Inr draws \<Rightarrow>
          (let hits = count_nonzero draws in
           if grp = ''A'' then
             Inr (self\<lparr>dataA := dataA self @ [[of_int hits, of_int (n - hits)]]\<rparr>)
           else if grp = ''B'' then
             Inr (self\<lparr>dataB := dataB self @ [[of_int hits, of_int (n - hits)]]\<rparr>)
           else Inr self))"

subsection \<open>The numpy operations on a ledger\<close>

text \<open>
  \<^verbatim>\<open>np.array(data, dtype="object")[:, j]\<close>. A non-empty list of rows of one common
  length \<open>k\<close> becomes an array of shape \<open>(n, k)\<close>, whose column \<open>j\<close> exists for
  \<open>j < k\<close>. The empty list and a ragged list become arrays of one dimension, where the
  second index raises \<^verbatim>\<open>IndexError\<close>, as does a column beyond \<open>k\<close>.
\<close>

definition np_column :: "real list list \<Rightarrow> nat \<Rightarrow> real list raises" where
  "np_column rows j =
     (case rows of
        [] \<Rightarrow> Inl IndexError
      | r # rs \<Rightarrow>
          if list_all (\<lambda>x. length x = length r) rs \<and> j < length r
          then Inr (map (\<lambda>x. x ! j) rows)
          else Inl IndexError)"

text \<open>
  \<^verbatim>\<open>np.sum\<close> on an object array reduces with \<^verbatim>\<open>+\<close> from the left, starting at the
  first element; \<^verbatim>\<open>np.cumsum\<close> keeps every intermediate value of that reduction.
\<close>

fun np_sum :: "real list \<Rightarrow> real" where
  "np_sum [] = 0"
| "np_sum (x # xs) = foldl (+) x xs"



subsection \<open>Posterior\<close>

text \<open>
  \<^verbatim>\<open>post_parameters(self, data, group)\<close>. Without an explicit ledger the group
  selects one; a group other than A and B leaves \<^verbatim>\<open>data\<close> at \<^verbatim>\<open>None\<close>, whose array
  has no dimension to index, hence \<^verbatim>\<open>IndexError\<close>.
\<close>

definition post_parameters ::
  "bays_bernoulli \<Rightarrow> real list list option \<Rightarrow> string \<Rightarrow> (real \<times> real) raises" where
  "post_parameters self d grp =
     (let d' = (case d of
                  None \<Rightarrow> if grp = ''A'' then Some (dataA self)
                          else if grp = ''B'' then Some (dataB self)
                          else None
                | Some x \<Rightarrow> Some x)
      in case d' of
           None \<Rightarrow> Inl IndexError
         | Some rows \<Rightarrow>
             (case np_column rows 0 of
                Inl e \<Rightarrow> Inl e
              | Inr c0 \<Rightarrow>
                  (case np_column rows 1 of
                     Inl e \<Rightarrow> Inl e
                   | Inr c1 \<Rightarrow> Inr (np_sum c0, np_sum c1))))"

text \<open>
  \<^verbatim>\<open>post_pred(self, data, group)\<close>: \<^verbatim>\<open>a/(a+b)\<close> on Python numbers, which raises
  \<^verbatim>\<open>ZeroDivisionError\<close> when the denominator is zero.
\<close>

definition post_pred ::
  "bays_bernoulli \<Rightarrow> real list list option \<Rightarrow> string \<Rightarrow> real raises" where
  "post_pred self d grp =
     (case post_parameters self d grp of
        Inl e \<Rightarrow> Inl e
      | Inr (a, b) \<Rightarrow> if a + b = 0 then Inl ZeroDivisionError else Inr (a / (a + b)))"



section \<open>Facts about the numpy operations\<close>













lemma fields_of_group:
  "map snd (filter (\<lambda>r. fst r = g) df)
   = concat (map (\<lambda>(t, f). if t = g then [f] else []) df)"
  by (induction df) auto

lemma count_nonzero_draws:
  "count_nonzero (map (\<lambda>i. u i < p) [0 ..< m]) = int (card {i. i < m \<and> u i < (p::real)})"
proof -
  have "length (filter (\<lambda>x. x) (map (\<lambda>i. u i < p) [0 ..< m]))
        = length (filter (\<lambda>i. u i < p) [0 ..< m])"
    by (simp add: filter_map comp_def)
  also have "\<dots> = card ({i. u i < p} \<inter> set [0 ..< m])"
    by (rule distinct_length_filter) simp
  also have "{i. u i < p} \<inter> set [0 ..< m] = {i. i < m \<and> u i < p}"
    by auto
  finally show ?thesis by (simp add: count_nonzero_def)
qed

lemma count_nonzero_bounds:
  "0 \<le> count_nonzero xs \<and> count_nonzero xs \<le> int (length xs)"
  by (simp add: count_nonzero_def)


section \<open>The specification's statements\<close>

subsection \<open>C1: a first experiment on a new object\<close>

text \<open>
  C1 expects that, on a new object with the Bayes-Laplace prior, adding the experiment
  (8, 2) to group A makes the posterior parameters of A equal to (9, 3) and its
  posterior mean 3/4. The code does not get there: on the new object the table slot is
  \<^verbatim>\<open>None\<close>, so the branch for group A of \<^verbatim>\<open>add_experiment\<close> raises
  \<^verbatim>\<open>AttributeError\<close>, the ledger of A keeps its seed alone, and the posterior
  parameters of A stay (1, 1) with mean 1/2.
\<close>

theorem add_experiment_group_A_fresh:
  "init ''Bayes-Laplace''
     = Inr \<lparr>prior = [1, 1], dataA = [[1, 1]], dataB = [[1, 1]], data = None\<rparr>
   \<and> add_experiment legacy \<lparr>prior = [1, 1], dataA = [[1, 1]], dataB = [[1, 1]], data = None\<rparr>
        8 2 ''A''
     = Inl (AttributeError, \<lparr>prior = [1, 1], dataA = [[1, 1]], dataB = [[1, 1]], data = None\<rparr>)
   \<and> post_parameters \<lparr>prior = [1, 1], dataA = [[1, 1]], dataB = [[1, 1]], data = None\<rparr>
        None ''A'' = Inr (1, 1)
   \<and> post_pred \<lparr>prior = [1, 1], dataA = [[1, 1]], dataB = [[1, 1]], data = None\<rparr>
        None ''A'' = Inr (1 / 2)"
  by (simp add: init_def add_experiment_def post_pred_def post_parameters_def np_column_def)

subsection \<open>C2: negative counts\<close>

text \<open>
  C2 as stated: whenever hits or fails is negative, \<^verbatim>\<open>add_experiment\<close> fails with a
  validation error and appends nothing. It does not hold: on a new object,
  \<^verbatim>\<open>add_experiment(-1, 5, group="B")\<close> returns normally and the ledger of B ends
  with the batch (-1, 5).
\<close>

theorem add_experiment_negative_counterexample:
  "init ''Bayes-Laplace''
     = Inr \<lparr>prior = [1, 1], dataA = [[1, 1]], dataB = [[1, 1]], data = None\<rparr>
   \<and> add_experiment False \<lparr>prior = [1, 1], dataA = [[1, 1]], dataB = [[1, 1]], data = None\<rparr>
        (- 1) 5 ''B''
     = Inr \<lparr>prior = [1, 1], dataA = [[1, 1]], dataB = [[1, 1], [- 1, 5]], data = None\<rparr>"
  by (simp add: init_def add_experiment_def)

text \<open>
  C2 as the code has it: \<^verbatim>\<open>add_experiment\<close> never looks at the sign of its counts.
  For group B it appends the batch (hits, fails) to the ledger of B whatever the
  numbers are and changes nothing else, and for no group and no counts does it raise
  \<^verbatim>\<open>ValueError\<close>.
\<close>

theorem add_experiment_no_sign_check:
  "add_experiment legacy self hits fails ''B''
     = Inr (self\<lparr>dataB := dataB self @ [[hits, fails]]\<rparr>)
   \<and> add_experiment legacy self hits fails grp \<noteq> Inl (ValueError, s')"
  by (simp add: add_experiment_def split: option.split)

theorem add_experiment_no_sign_check_witness:
  "add_experiment True
     \<lparr>prior = [1 / 2, 1 / 2], dataA = [[1 / 2, 1 / 2]], dataB = [[1 / 2, 1 / 2]],
      data = None\<rparr> (- 3) (- 4) ''B''
   = Inr \<lparr>prior = [1 / 2, 1 / 2], dataA = [[1 / 2, 1 / 2]],
          dataB = [[1 / 2, 1 / 2], [- 3, - 4]], data = None\<rparr>"
  using add_experiment_no_sign_check
      [of True "\<lparr>prior = [1 / 2, 1 / 2], dataA = [[1 / 2, 1 / 2]],
                 dataB = [[1 / 2, 1 / 2]], data = None\<rparr>" "- 3" "- 4"]
  by simp

subsection \<open>C3: the names of the priors\<close>

text \<open>
  C3: construction with a name other than Bayes-Laplace, Jeffreys, Neutral and Haldane
  fails, with the error the source raises for an unknown prior (\<^verbatim>\<open>SyntaxError\<close>), and
  construction with each of the four names succeeds.
\<close>

theorem init_prior_names:
  "(prior_type \<notin> {''Bayes-Laplace'', ''Jeffreys'', ''Neutral'', ''Haldane''}
      \<longrightarrow> init prior_type = Inl SyntaxError)
   \<and> (prior_type \<in> {''Bayes-Laplace'', ''Jeffreys'', ''Neutral'', ''Haldane''}
      \<longrightarrow> (\<exists>s. init prior_type = Inr s))"
  by (auto simp: init_def)

theorem init_prior_names_witness:
  "init ''Flat'' = Inl SyntaxError \<and> (\<exists>s. init ''Neutral'' = Inr s)"
  using init_prior_names [of "''Flat''"] init_prior_names [of "''Neutral''"]
  by simp

subsection \<open>C4: the posterior parameters are the sums over the ledger\<close>



subsection \<open>C5: the posterior mean\<close>




subsection \<open>C6: the cumulative parameters\<close>



subsection \<open>C7: the seed of a new object\<close>

text \<open>
  C7: for each of the four priors, Bayes-Laplace (1, 1), Jeffreys (1/2, 1/2), Neutral
  (1/3, 1/3) and Haldane (1/1000, 1/1000), the new object has in each of its two
  ledgers exactly one batch, the pseudo-counts of the prior, and the posterior
  parameters of either group are those pseudo-counts.
\<close>

theorem init_seeds_both_ledgers:
  assumes "(name, p) \<in> set [(''Bayes-Laplace'', 1), (''Jeffreys'', 1 / 2),
                              (''Neutral'', 1 / 3), (''Haldane'', 1 / 1000)]"
  shows "\<exists>s. init name = Inr s \<and> dataA s = [[p, p]] \<and> dataB s = [[p, p]]
              \<and> post_parameters s None ''A'' = Inr (p, p)
              \<and> post_parameters s None ''B'' = Inr (p, p)"
  using assms by (auto simp: init_def post_parameters_def np_column_def)

theorem init_seeds_both_ledgers_witness:
  "\<exists>s. init ''Haldane'' = Inr s \<and> dataA s = [[1 / 1000, 1 / 1000]]
        \<and> dataB s = [[1 / 1000, 1 / 1000]]
        \<and> post_parameters s None ''A'' = Inr (1 / 1000, 1 / 1000)
        \<and> post_parameters s None ''B'' = Inr (1 / 1000, 1 / 1000)"
  using init_seeds_both_ledgers [of "''Haldane''" "1 / 1000"] by simp

subsection \<open>C8: ingesting a table\<close>

text \<open>
  C8: when the group column of the table lacks the value A or the value B,
  \<^verbatim>\<open>add_data\<close> raises \<^verbatim>\<open>ValueError\<close> and the object is as before; when both occur,
  it succeeds, the ledger of A grows by the fields of the rows tagged A, in their
  order, the ledger of B by those of the rows tagged B, and so the fields of every
  row tagged A or B are in the ledger of its group.
\<close>

theorem add_data_both_groups:
  "(\<not> (''A'' \<in> fst ` set df \<and> ''B'' \<in> fst ` set df)
      \<longrightarrow> add_data self df = Inl (ValueError, self))
   \<and> (''A'' \<in> fst ` set df \<and> ''B'' \<in> fst ` set df
      \<longrightarrow> (\<exists>s'. add_data self df = Inr s'
              \<and> dataA s' = dataA self @ concat (map (\<lambda>(t, f). if t = ''A'' then [f] else []) df)
              \<and> dataB s' = dataB self @ concat (map (\<lambda>(t, f). if t = ''B'' then [f] else []) df)
              \<and> (\<forall>(t, f) \<in> set df. (t = ''A'' \<longrightarrow> f \<in> set (dataA s'))
                                  \<and> (t = ''B'' \<longrightarrow> f \<in> set (dataB s')))))"
proof (intro conjI impI)
  assume "\<not> (''A'' \<in> fst ` set df \<and> ''B'' \<in> fst ` set df)"
  then show "add_data self df = Inl (ValueError, self)"
    by (auto simp: add_data_def)
next
  assume both: "''A'' \<in> fst ` set df \<and> ''B'' \<in> fst ` set df"
  let ?s = "self\<lparr>data := Some df,
                  dataA := dataA self @ map snd (filter (\<lambda>r. fst r = ''A'') df),
                  dataB := dataB self @ map snd (filter (\<lambda>r. fst r = ''B'') df)\<rparr>"
  from both have run: "add_data self df = Inr ?s"
    by (simp add: add_data_def)
  have a: "dataA ?s = dataA self @ concat (map (\<lambda>(t, f). if t = ''A'' then [f] else []) df)"
    by (simp add: fields_of_group)
  have b: "dataB ?s = dataB self @ concat (map (\<lambda>(t, f). if t = ''B'' then [f] else []) df)"
    by (simp add: fields_of_group)
  have m: "\<forall>(t, f) \<in> set df. (t = ''A'' \<longrightarrow> f \<in> set (dataA ?s))
                             \<and> (t = ''B'' \<longrightarrow> f \<in> set (dataB ?s))"
    by force
  from run a b m
  show "\<exists>s'. add_data self df = Inr s'
          \<and> dataA s' = dataA self @ concat (map (\<lambda>(t, f). if t = ''A'' then [f] else []) df)
          \<and> dataB s' = dataB self @ concat (map (\<lambda>(t, f). if t = ''B'' then [f] else []) df)
          \<and> (\<forall>(t, f) \<in> set df. (t = ''A'' \<longrightarrow> f \<in> set (dataA s'))
                              \<and> (t = ''B'' \<longrightarrow> f \<in> set (dataB s')))"
    by blast
qed

theorem add_data_both_groups_witness:
  "add_data \<lparr>prior = [1, 1], dataA = [[1, 1]], dataB = [[1, 1]], data = None\<rparr>
     [(''A'', [3, 7]), (''A'', [4, 6])]
     = Inl (ValueError, \<lparr>prior = [1, 1], dataA = [[1, 1]], dataB = [[1, 1]], data = None\<rparr>)
   \<and> (\<exists>s'. add_data \<lparr>prior = [1, 1], dataA = [[1, 1]], dataB = [[1, 1]], data = None\<rparr>
              [(''A'', [3, 7]), (''B'', [5, 5]), (''A'', [4, 6])] = Inr s'
          \<and> dataA s' = [[1, 1], [3, 7], [4, 6]] \<and> dataB s' = [[1, 1], [5, 5]])"
  using add_data_both_groups
      [of "[(''A'', [3, 7]), (''A'', [4, 6])]"
          "\<lparr>prior = [1, 1], dataA = [[1, 1]], dataB = [[1, 1]], data = None\<rparr>"]
    add_data_both_groups
      [of "[(''A'', [3, 7]), (''B'', [5, 5]), (''A'', [4, 6])]"
          "\<lparr>prior = [1, 1], dataA = [[1, 1]], dataB = [[1, 1]], data = None\<rparr>"]
  by auto


subsection \<open>C9: simulated trials\<close>

text \<open>
  C9: when \<open>0 \<le> p \<le> 1\<close> and \<open>n \<ge> 0\<close>, \<^verbatim>\<open>add_rand_experiment\<close> for group A or B
  appends exactly one batch \<open>(k, n - k)\<close> to the ledger of that group, where \<open>k\<close>,
  between 0 and \<open>n\<close>, is the number of successes among the \<open>n\<close> draws, and changes
  nothing else; when \<open>p\<close> is outside \<open>[0, 1]\<close> or \<open>n\<close> is negative it raises
  \<^verbatim>\<open>ValueError\<close> and the object is as before.
\<close>

theorem add_rand_experiment_appends_one_batch:
  "(0 \<le> p \<and> p \<le> 1 \<and> 0 \<le> n \<and> (grp = ''A'' \<or> grp = ''B'')
      \<longrightarrow> (\<exists>k. 0 \<le> k \<and> k \<le> n \<and> k = int (card {i. i < nat n \<and> u i < p})
              \<and> add_rand_experiment u self n p grp
                  = Inr (if grp = ''A''
                         then self\<lparr>dataA := dataA self @ [[of_int k, of_int (n - k)]]\<rparr>
                         else self\<lparr>dataB := dataB self @ [[of_int k, of_int (n - k)]]\<rparr>)))
   \<and> (\<not> (0 \<le> p \<and> p \<le> 1 \<and> 0 \<le> n)
      \<longrightarrow> add_rand_experiment u self n p grp = Inl (ValueError, self))"
proof (intro conjI impI)
  assume ok: "0 \<le> p \<and> p \<le> 1 \<and> 0 \<le> n \<and> (grp = ''A'' \<or> grp = ''B'')"
  let ?draws = "map (\<lambda>i. u i < p) [0 ..< nat n]"
  let ?k = "count_nonzero ?draws"
  from ok have rvs: "bernoulli_rvs u p n = Inr ?draws"
    by (simp add: bernoulli_rvs_def)
  have k: "?k = int (card {i. i < nat n \<and> u i < p})"
    by (rule count_nonzero_draws)
  from count_nonzero_bounds [of ?draws] ok have bounds: "0 \<le> ?k \<and> ?k \<le> n"
    by simp
  from ok rvs have "add_rand_experiment u self n p grp
      = Inr (if grp = ''A''
             then self\<lparr>dataA := dataA self @ [[of_int ?k, of_int (n - ?k)]]\<rparr>
             else self\<lparr>dataB := dataB self @ [[of_int ?k, of_int (n - ?k)]]\<rparr>)"
    by (auto simp: add_rand_experiment_def Let_def)
  with bounds k
  show "\<exists>k. 0 \<le> k \<and> k \<le> n \<and> k = int (card {i. i < nat n \<and> u i < p})
          \<and> add_rand_experiment u self n p grp
              = Inr (if grp = ''A''
                     then self\<lparr>dataA := dataA self @ [[of_int k, of_int (n - k)]]\<rparr>
                     else self\<lparr>dataB := dataB self @ [[of_int k, of_int (n - k)]]\<rparr>)"
    by metis
next
  assume "\<not> (0 \<le> p \<and> p \<le> 1 \<and> 0 \<le> n)"
  then show "add_rand_experiment u self n p grp = Inl (ValueError, self)"
    by (auto simp: add_rand_experiment_def bernoulli_rvs_def)
qed

theorem add_rand_experiment_appends_one_batch_witness:
  "(\<exists>k. 0 \<le> k \<and> k \<le> 4
        \<and> add_rand_experiment of_nat
             \<lparr>prior = [1, 1], dataA = [[1, 1]], dataB = [[1, 1]], data = None\<rparr> 4 (1 / 4) ''A''
           = Inr \<lparr>prior = [1, 1], dataA = [[1, 1], [of_int k, of_int (4 - k)]],
                  dataB = [[1, 1]], data = None\<rparr>)
   \<and> add_rand_experiment of_nat
        \<lparr>prior = [1, 1], dataA = [[1, 1]], dataB = [[1, 1]], data = None\<rparr> 4 (1 / 4) ''A''
     = Inr \<lparr>prior = [1, 1], dataA = [[1, 1], [1, 3]], dataB = [[1, 1]], data = None\<rparr>
   \<and> add_rand_experiment of_nat
        \<lparr>prior = [1, 1], dataA = [[1, 1]], dataB = [[1, 1]], data = None\<rparr> 4 (3 / 2) ''A''
     = Inl (ValueError, \<lparr>prior = [1, 1], dataA = [[1, 1]], dataB = [[1, 1]], data = None\<rparr>)"
proof -
  let ?s = "\<lparr>prior = [1, 1], dataA = [[1, 1]], dataB = [[1, 1]], data = None\<rparr>"
  have ok: "(0::real) \<le> 1 / 4 \<and> (1::real) / 4 \<le> 1 \<and> (0::int) \<le> 4
            \<and> (''A'' = ''A'' \<or> ''A'' = ''B'')"
    by simp
  with add_rand_experiment_appends_one_batch [of "1 / 4" 4 "''A''" of_nat ?s]
  obtain k where "0 \<le> k" "k \<le> 4"
    and "add_rand_experiment of_nat ?s 4 (1 / 4) ''A''
         = Inr (if ''A'' = ''A''
                then ?s\<lparr>dataA := dataA ?s @ [[of_int k, of_int (4 - k)]]\<rparr>
                else ?s\<lparr>dataB := dataB ?s @ [[of_int k, of_int (4 - k)]]\<rparr>)"
    by blast
  then have first: "\<exists>k. 0 \<le> k \<and> k \<le> 4
        \<and> add_rand_experiment of_nat ?s 4 (1 / 4) ''A''
           = Inr \<lparr>prior = [1, 1], dataA = [[1, 1], [of_int k, of_int (4 - k)]],
                  dataB = [[1, 1]], data = None\<rparr>"
    by (intro exI [of _ k]) simp
  have run: "add_rand_experiment of_nat ?s 4 (1 / 4) ''A''
             = Inr \<lparr>prior = [1, 1], dataA = [[1, 1], [1, 3]], dataB = [[1, 1]], data = None\<rparr>"
    by (simp add: add_rand_experiment_def bernoulli_rvs_def count_nonzero_def upt_conv_Cons)
  have bad: "\<not> ((0::real) \<le> 3 / 2 \<and> (3::real) / 2 \<le> 1 \<and> (0::int) \<le> 4)"
    by simp
  with add_rand_experiment_appends_one_batch [of "3 / 2" 4 "''A''" of_nat ?s]
  have "add_rand_experiment of_nat ?s 4 (3 / 2) ''A'' = Inl (ValueError, ?s)"
    by blast
  with first run show ?thesis by blast
qed

subsection \<open>C10: a group that is neither A nor B\<close>

text \<open>
  C10 as stated: for a group other than A and B both append operations return without
  any error and leave the ledgers alone. For \<^verbatim>\<open>add_rand_experiment\<close> that fails:
  the draw comes before the test on the group, so with \<open>n = -1\<close> the call raises
  \<^verbatim>\<open>ValueError\<close> for group C as for any other.
\<close>

theorem add_rand_experiment_other_group_counterexample:
  "add_rand_experiment of_nat
     \<lparr>prior = [1, 1], dataA = [[1, 1]], dataB = [[1, 1]], data = None\<rparr> (- 1) (1 / 2) ''C''
   = Inl (ValueError, \<lparr>prior = [1, 1], dataA = [[1, 1]], dataB = [[1, 1]], data = None\<rparr>)"
  by (simp add: add_rand_experiment_def bernoulli_rvs_def)

text \<open>
  C10 as the code has it: for a group other than A and B, \<^verbatim>\<open>add_experiment\<close>
  returns without error and leaves the object as it is; \<^verbatim>\<open>add_rand_experiment\<close>
  does the same when \<open>0 \<le> p \<le> 1\<close> and \<open>n \<ge> 0\<close>, and otherwise raises
  \<^verbatim>\<open>ValueError\<close>, the object again as it is.
\<close>

theorem other_group_leaves_ledgers:
  assumes "grp \<noteq> ''A''" and "grp \<noteq> ''B''"
  shows "add_experiment legacy self hits fails grp = Inr self
         \<and> (0 \<le> p \<and> p \<le> 1 \<and> 0 \<le> n \<longrightarrow> add_rand_experiment u self n p grp = Inr self)
         \<and> (\<not> (0 \<le> p \<and> p \<le> 1 \<and> 0 \<le> n)
              \<longrightarrow> add_rand_experiment u self n p grp = Inl (ValueError, self))"
  using assms by (auto simp: add_experiment_def add_rand_experiment_def bernoulli_rvs_def)

theorem other_group_leaves_ledgers_witness:
  "add_experiment False \<lparr>prior = [1, 1], dataA = [[1, 1]], dataB = [[1, 1]], data = None\<rparr>
     8 2 ''C''
     = Inr \<lparr>prior = [1, 1], dataA = [[1, 1]], dataB = [[1, 1]], data = None\<rparr>
   \<and> add_rand_experiment of_nat
       \<lparr>prior = [1, 1], dataA = [[1, 1]], dataB = [[1, 1]], data = None\<rparr> 10 (1 / 2) ''C''
     = Inr \<lparr>prior = [1, 1], dataA = [[1, 1]], dataB = [[1, 1]], data = None\<rparr>
   \<and> add_rand_experiment of_nat
       \<lparr>prior = [1, 1], dataA = [[1, 1]], dataB = [[1, 1]], data = None\<rparr> 10 2 ''C''
     = Inl (ValueError, \<lparr>prior = [1, 1], dataA = [[1, 1]], dataB = [[1, 1]], data = None\<rparr>)"
  using other_group_leaves_ledgers
      [of "''C''" False "\<lparr>prior = [1, 1], dataA = [[1, 1]], dataB = [[1, 1]], data = None\<rparr>"
          8 2 "1 / 2" 10 of_nat]
    other_group_leaves_ledgers
      [of "''C''" False "\<lparr>prior = [1, 1], dataA = [[1, 1]], dataB = [[1, 1]], data = None\<rparr>"
          8 2 2 10 of_nat]
  by simp

end
